theory Spec2Isabelle
  imports Main "HOL-Library.Sublist"
begin

section \<open>Python list slices\<close>

text \<open>
  \<^verbatim>\<open>xs[i:]\<close> and \<^verbatim>\<open>xs[:i]\<close> of Python: a negative bound counts from the end, and a bound
  outside the list is clamped. Note that \<^verbatim>\<open>-0\<close> is \<^verbatim>\<open>0\<close>: \<^verbatim>\<open>xs[-0:]\<close> is the whole list and
  \<^verbatim>\<open>xs[:-0]\<close> is empty.
\<close>

definition py_bound :: "'a list \<Rightarrow> int \<Rightarrow> nat" where
  "py_bound xs i =
     (let n = int (length xs) in nat (if i < 0 then max (n + i) 0 else min i n))"

definition py_slice_from :: "'a list \<Rightarrow> int \<Rightarrow> 'a list" where
  "py_slice_from xs i = drop (py_bound xs i) xs"

definition py_slice_to :: "'a list \<Rightarrow> int \<Rightarrow> 'a list" where
  "py_slice_to xs i = take (py_bound xs i) xs"

section \<open>Post-generation trimmer\<close>

text \<open>
  \<^verbatim>\<open>remove_stop_tokens_from_end\<close> (inference.py, lines 143 to 161). Token ids are Python
  integers. \<^verbatim>\<open>sorted(stop_sequences, key=lambda x: -len(x))\<close> is a stable sort on the
  negated length, which is what \<^const>\<open>sort_key\<close> computes; the \<^verbatim>\<open>for\<close> loop with its
  early \<^verbatim>\<open>return\<close> is the recursion of \<open>remove_stop_tokens_loop\<close>.
\<close>

fun remove_stop_tokens_loop :: "int list \<Rightarrow> int list list \<Rightarrow> int list" where
  "remove_stop_tokens_loop token_ids [] = token_ids"
| "remove_stop_tokens_loop token_ids (seg # rest) =
     (if length token_ids \<ge> length seg
        \<and> py_slice_from token_ids (- int (length seg)) = seg
      then py_slice_to token_ids (- int (length seg))
      else remove_stop_tokens_loop token_ids rest)"

definition remove_stop_tokens_from_end :: "int list \<Rightarrow> int list list \<Rightarrow> int list" where
  "remove_stop_tokens_from_end token_ids stop_sequences =
     (let sorted_sequences = sort_key (\<lambda>x. - int (length x)) stop_sequences
      in remove_stop_tokens_loop token_ids sorted_sequences)"

text \<open>
  The test of one loop iteration: \<^verbatim>\<open>len(token_ids) >= len(seg) and
  token_ids[-len(seg):] == seg\<close>.
\<close>

definition tail_equals :: "int list \<Rightarrow> int list \<Rightarrow> bool" where
  "tail_equals token_ids seg \<longleftrightarrow>
     length token_ids \<ge> length seg \<and> py_slice_from token_ids (- int (length seg)) = seg"

section \<open>Tools and tool choice\<close>

text \<open>
  Modelled from the spec: the types \<^verbatim>\<open>Function\<close> and \<^verbatim>\<open>Tool\<close> of
  \<^verbatim>\<open>functionary.openai_types\<close>, which inference.py imports and which are not among the
  sources. The fields are the ones inference.py reads: \<^verbatim>\<open>tool.type\<close>,
  \<^verbatim>\<open>tool.function.name\<close>, \<^verbatim>\<open>tool.function.description\<close> and
  \<^verbatim>\<open>tool.function.parameters\<close>. A parameter schema is a JSON object and may be absent
  (\<^verbatim>\<open>parameters is None\<close>). A tool may come without a function record, as the
  \<^verbatim>\<open>{"type": "code_interpreter"}\<close> of the docstring of \<^verbatim>\<open>enforce_code_interpreter\<close>
  does; reading \<^verbatim>\<open>.name\<close> of an absent function record raises \<^verbatim>\<open>AttributeError\<close>.
\<close>

datatype json =
    JNull
  | JBool bool
  | JNumber int
  | JString string
  | JArray "json list"
  | JObject "(string \<times> json) list"

record Function =
  name :: string
  description :: string
  parameters :: "json option"

record Tool =
  tool_type :: string
  tool_function :: "Function option"

text \<open>The exceptions the modelled code can raise.\<close>

datatype error =
    AssertionError string
  | AttributeError
  | TypeError
  | IndexError

text \<open>\<^verbatim>\<open>tool_choice: Union[str, Tool]\<close>.\<close>

datatype ToolChoice = Str string | ToolObj Tool

text \<open>
  \<^verbatim>\<open>PYTHON_RUN_TOOL\<close> (inference.py, lines 17 to 27) as \<^verbatim>\<open>Tool.parse_obj\<close> reads it: the
  entries of the literal become the fields. The sentence about Internet access stands in
  a comment after the string in the source, so it is not part of the description.
\<close>

definition PYTHON_RUN_TOOL_description :: string where
  "PYTHON_RUN_TOOL_description =
     ''When you send a message containing Python code to python, it will be executed in a stateful Jupyter notebook environment. python will respond with the output of the execution or time out after 60.0 seconds. The drive at '/mnt/data' can be used to save and persist user files.''"

definition PYTHON_RUN_TOOL :: Tool where
  "PYTHON_RUN_TOOL =
     \<lparr> tool_type = ''function'',
       tool_function = Some
         \<lparr> name = ''python'',
           description = PYTHON_RUN_TOOL_description,
           parameters = Some (JObject [(''type'', JString ''object''),
                                       (''properties'', JObject [])]) \<rparr> \<rparr>"

subsection \<open>Tool-choice resolver\<close>

text \<open>
  The list comprehension of \<^verbatim>\<open>enforce_tool_choice\<close> (lines 108 to 112): it keeps, in order,
  every tool whose function name is the wanted one, and raises at the first tool that has
  no function record.
\<close>

fun tools_named :: "Tool list \<Rightarrow> string \<Rightarrow> error + Tool list" where
  "tools_named [] wanted = Inr []"
| "tools_named (tool # rest) wanted =
     (case tool_function tool of
        None \<Rightarrow> Inl AttributeError
      | Some f \<Rightarrow>
          (case tools_named rest wanted of
             Inl e \<Rightarrow> Inl e
           | Inr kept \<Rightarrow> Inr (if name f = wanted then tool # kept else kept)))"

definition invalid_tool_choice_message :: "string \<Rightarrow> string" where
  "invalid_tool_choice_message n =
     ''Invalid value for 'tool_choice': no function named '' @ n
       @ '' was specified in the 'tools' parameter''"

text \<open>
  \<^verbatim>\<open>enforce_tool_choice\<close> (lines 89 to 119). \<^verbatim>\<open>tools\<close> is \<^verbatim>\<open>Optional[List[Tool]]\<close>; iterating
  over \<^verbatim>\<open>None\<close> raises \<^verbatim>\<open>TypeError\<close>. The failed \<^verbatim>\<open>assert\<close> raises \<^verbatim>\<open>AssertionError\<close> with
  the message of the source (the error the specification calls InvalidToolChoice).
\<close>

definition enforce_tool_choice :: "ToolChoice \<Rightarrow> Tool list option \<Rightarrow> error + Tool list option" where
  "enforce_tool_choice tool_choice tools =
     (case tool_choice of
        Str s \<Rightarrow> if s = ''none'' then Inr (Some []) else Inr tools
      | ToolObj tc \<Rightarrow>
          (case tool_function tc of
             None \<Rightarrow> Inl AttributeError
           | Some f \<Rightarrow>
               if description f = '''' \<and> parameters f = None then
                 (case tools of
                    None \<Rightarrow> Inl TypeError
                  | Some ts \<Rightarrow>
                      (case tools_named ts (name f) of
                         Inl e \<Rightarrow> Inl e
                       | Inr kept \<Rightarrow>
                           if length kept > 0 then Inr (Some kept)
                           else Inl (AssertionError (invalid_tool_choice_message (name f)))))
               else Inr (Some [tc])))"

subsection \<open>Code-interpreter substituter\<close>

text \<open>
  \<^verbatim>\<open>enforce_code_interpreter\<close> (lines 122 to 140) assigns \<^verbatim>\<open>tools[i]\<close> in the list object it
  was given and returns that same object. Lists therefore live in a store, addressed by
  references; the function takes the store and the reference (or \<^verbatim>\<open>None\<close>) and returns
  the new store and the returned reference. The loop runs over \<^verbatim>\<open>enumerate(tools)\<close>; the
  list is assigned to only right before \<^verbatim>\<open>break\<close>, so the enumeration is that of the list
  as it was on entry.
\<close>

type_synonym ref = nat

type_synonym store = "ref \<Rightarrow> Tool list"

fun enforce_code_interpreter_loop :: "store \<Rightarrow> ref \<Rightarrow> (nat \<times> Tool) list \<Rightarrow> store" where
  "enforce_code_interpreter_loop st tools [] = st"
| "enforce_code_interpreter_loop st tools ((i, tool) # rest) =
     (if tool_type tool = ''code_interpreter''
      then st (tools := (st tools) [i := PYTHON_RUN_TOOL])
      else enforce_code_interpreter_loop st tools rest)"

definition enforce_code_interpreter :: "store \<Rightarrow> ref option \<Rightarrow> store \<times> ref option" where
  "enforce_code_interpreter st tools =
     (case tools of
        None \<Rightarrow> (st, None)
      | Some r \<Rightarrow> (enforce_code_interpreter_loop st r (enumerate 0 (st r)), Some r))"

section \<open>Stop-sequence matcher\<close>

text \<open>
  \<^verbatim>\<open>StopWordsCriteria.__call__\<close> (lines 35 to 40). \<^verbatim>\<open>input_ids\<close> is a batch of id sequences;
  \<^verbatim>\<open>input_ids[0]\<close> is its first row and raises \<^verbatim>\<open>IndexError\<close> on an empty batch.
  \<^verbatim>\<open>scores\<close> is not read. \<^verbatim>\<open>self.stops\<close> is the first argument.
\<close>

fun StopWordsCriteria_loop :: "int list \<Rightarrow> int list list \<Rightarrow> bool" where
  "StopWordsCriteria_loop inputs [] = False"
| "StopWordsCriteria_loop inputs (stop # rest) =
     (if length inputs \<ge> length stop \<and> py_slice_from inputs (- int (length stop)) = stop
      then True
      else StopWordsCriteria_loop inputs rest)"

definition StopWordsCriteria_call :: "int list list \<Rightarrow> int list list \<Rightarrow> error + bool" where
  "StopWordsCriteria_call stops input_ids =
     (case input_ids of
        [] \<Rightarrow> Inl IndexError
      | inputs # _ \<Rightarrow> Inr (StopWordsCriteria_loop inputs stops))"

text \<open>
  The stop sequences of \<^verbatim>\<open>generate_message\<close> (lines 184 to 194). The tokenizer's
  \<^verbatim>\<open>encode(stop, add_special_tokens=False)\<close> is the parameter \<open>encode\<close>;
  \<open>kwargs_stops\<close> is \<^verbatim>\<open>kwargs.get("stops", [])\<close> and \<open>template_stops\<close> is
  \<^verbatim>\<open>prompt_template.get_stop_tokens_for_generation()\<close>.
\<close>

fun stop_words_ids_loop ::
  "(string \<Rightarrow> int list) \<Rightarrow> string list \<Rightarrow> int list list \<Rightarrow> int list list" where
  "stop_words_ids_loop encode [] stop_words_ids = stop_words_ids"
| "stop_words_ids_loop encode (stop # rest) stop_words_ids =
     (let tok_ids = encode stop;
          tok_ids = (if length tok_ids > 1 \<and> tok_ids ! 0 = 29871
                     then py_slice_from tok_ids 1 else tok_ids)
      in stop_words_ids_loop encode rest (stop_words_ids @ [tok_ids]))"

definition generate_message_stop_words_ids ::
  "(string \<Rightarrow> int list) \<Rightarrow> string list \<Rightarrow> string list \<Rightarrow> int list list" where
  "generate_message_stop_words_ids encode kwargs_stops template_stops =
     stop_words_ids_loop encode (kwargs_stops @ template_stops) []"

section \<open>Prompt assembler\<close>

text \<open>
  The collaborators of \<^verbatim>\<open>prepare_messages_for_inference\<close> (lines 50 to 86), none of which
  is among the sources, are parameters: the \<^verbatim>\<open>.dict()\<close> of a message, a function and a
  tool, the four methods of the prompt template that the function calls, and the
  tokenizer. Dictionaries are JSON objects; \<open>'cm\<close> is the type of chat messages.
\<close>

record 'cm Collaborators =
  ChatMessage_dict :: "'cm \<Rightarrow> json"
  Function_dict :: "Function \<Rightarrow> json"
  Tool_dict :: "Tool \<Rightarrow> json"
  pre_process_messages_before_inference :: "json list \<Rightarrow> json list"
  get_prompt_from_messages :: "json list \<Rightarrow> json list \<Rightarrow> string"
  get_predefined_function_names :: "string list"
  get_stop_token_for_function_parameter :: "string \<Rightarrow> string"
  tokenizer :: "string \<Rightarrow> int list"

text \<open>
  Lines 61 to 73: the prompt as the template renders it, before any forcing.
  \<^verbatim>\<open>if functions:\<close> holds for a list that is neither \<^verbatim>\<open>None\<close> nor empty.
\<close>

definition rendered_prompt ::
  "'cm Collaborators \<Rightarrow> 'cm list \<Rightarrow> Function list option \<Rightarrow> Tool list option \<Rightarrow> string" where
  "rendered_prompt c messages functions tools =
     (let dic_messages = map (ChatMessage_dict c) messages;
          dic_messages = dic_messages @ [JObject [(''role'', JString ''assistant'')]];
          tools_or_functions =
            (case functions of
               Some (f # fs) \<Rightarrow> map (Function_dict c) (f # fs)
             | _ \<Rightarrow>
                 (case tools of
                    Some (t # ts) \<Rightarrow> map (Tool_dict c) (t # ts)
                  | _ \<Rightarrow> []));
          dic_messages = pre_process_messages_before_inference c dic_messages
      in get_prompt_from_messages c dic_messages tools_or_functions)"

text \<open>
  Lines 75 to 82: what is appended to the rendered prompt. \<^verbatim>\<open>tool_choice\<close> is
  \<^verbatim>\<open>Optional[Union[str, Tool]]\<close>. Index 0 of an empty list raises \<^verbatim>\<open>IndexError\<close>;
  \<^verbatim>\<open>.function\<close> of a string, and \<^verbatim>\<open>.name\<close> of an absent function record, raise
  \<^verbatim>\<open>AttributeError\<close>.
\<close>

definition prepare_messages_final_prompt ::
  "'cm Collaborators \<Rightarrow> 'cm list \<Rightarrow> Function list option \<Rightarrow> Tool list option
     \<Rightarrow> ToolChoice option \<Rightarrow> error + string" where
  "prepare_messages_final_prompt c messages functions tools tool_choice =
     (let final_prompt = rendered_prompt c messages functions tools in
      if tool_choice \<noteq> None \<and> tool_choice \<noteq> Some (Str ''auto'') then
        (case (if tool_choice = Some (Str ''none'')
               then (case get_predefined_function_names c of
                       [] \<Rightarrow> Inl IndexError
                     | first # _ \<Rightarrow> Inr (final_prompt @ first))
               else (case tool_choice of
                       Some (ToolObj tc) \<Rightarrow>
                         (case tool_function tc of
                            None \<Rightarrow> Inl AttributeError
                          | Some f \<Rightarrow> Inr (final_prompt @ name f))
                     | _ \<Rightarrow> Inl AttributeError)) of
           Inl e \<Rightarrow> Inl e
         | Inr final_prompt \<Rightarrow>
             Inr (final_prompt @ get_stop_token_for_function_parameter c ''function''))
      else Inr final_prompt)"

definition prepare_messages_for_inference ::
  "'cm Collaborators \<Rightarrow> 'cm list \<Rightarrow> Function list option \<Rightarrow> Tool list option
     \<Rightarrow> ToolChoice option \<Rightarrow> error + int list" where
  "prepare_messages_for_inference c messages functions tools tool_choice =
     (case prepare_messages_final_prompt c messages functions tools tool_choice of
        Inl e \<Rightarrow> Inl e
      | Inr final_prompt \<Rightarrow> Inr (tokenizer c final_prompt))"

subsection \<open>An example template\<close>

text \<open>
  A template for the examples: it renders the conversation as the number of its records,
  its canonical "no tool" name is \<open>all\<close>, and its function-parameter stop marker is
  \<open><|content|>\<close>.
\<close>

definition example_collaborators :: "string Collaborators" where
  "example_collaborators =
     \<lparr> ChatMessage_dict = JString,
       Function_dict = (\<lambda>f. JString (name f)),
       Tool_dict = (\<lambda>t. JString (tool_type t)),
       pre_process_messages_before_inference = (\<lambda>ms. ms),
       get_prompt_from_messages = (\<lambda>ms ts. replicate (length ms) CHR ''#''),
       get_predefined_function_names = [''all''],
       get_stop_token_for_function_parameter = (\<lambda>stage. ''<|content|>''),
       tokenizer = map of_char \<rparr>"

section \<open>Properties of the trimmer\<close>

lemma py_slice_from_neg:
  "0 < length seg \<Longrightarrow> length seg \<le> length xs \<Longrightarrow>
     py_slice_from xs (- int (length seg)) = drop (length xs - length seg) xs"
  by (simp add: py_slice_from_def py_bound_def Let_def nat_diff_distrib' max_def)

lemma py_slice_to_neg:
  "0 < length seg \<Longrightarrow> length seg \<le> length xs \<Longrightarrow>
     py_slice_to xs (- int (length seg)) = take (length xs - length seg) xs"
  by (simp add: py_slice_to_def py_bound_def Let_def nat_diff_distrib' max_def)

lemma py_slice_from_zero: "py_slice_from xs 0 = xs"
  by (simp add: py_slice_from_def py_bound_def)

lemma py_slice_to_zero: "py_slice_to xs 0 = []"
  by (simp add: py_slice_to_def py_bound_def)

lemma drop_eq_suffix:
  "length seg \<le> length xs \<Longrightarrow> drop (length xs - length seg) xs = seg \<longleftrightarrow> suffix seg xs"
proof
  assume "length seg \<le> length xs" "drop (length xs - length seg) xs = seg"
  then show "suffix seg xs" by (metis suffix_drop)
next
  assume "suffix seg xs"
  then obtain zs where "xs = zs @ seg" by (auto simp: suffix_def)
  then show "drop (length xs - length seg) xs = seg" by simp
qed

lemma tail_equals_iff:
  "tail_equals xs seg \<longleftrightarrow> suffix seg xs \<and> (seg = [] \<longrightarrow> xs = [])"
proof (cases "seg = []")
  case True
  then show ?thesis by (auto simp: tail_equals_def py_slice_from_zero)
next
  case False
  then have pos: "0 < length seg" by simp
  show ?thesis
  proof (cases "length seg \<le> length xs")
    case True
    from pos True have "py_slice_from xs (- int (length seg)) = drop (length xs - length seg) xs"
      by (rule py_slice_from_neg)
    with True False drop_eq_suffix [OF True] show ?thesis
      by (simp add: tail_equals_def)
  next
    case False
    then have "\<not> suffix seg xs" by (auto simp: suffix_def)
    with False show ?thesis by (simp add: tail_equals_def)
  qed
qed

lemma tail_equals_strip:
  assumes "tail_equals xs seg"
  shows "py_slice_to xs (- int (length seg)) @ seg = xs"
proof (cases "seg = []")
  case True
  with assms show ?thesis by (simp add: tail_equals_iff py_slice_to_zero)
next
  case False
  from assms have le: "length seg \<le> length xs"
    by (simp add: tail_equals_def)
  from assms have suf: "suffix seg xs"
    by (simp add: tail_equals_iff)
  from False le have "py_slice_to xs (- int (length seg)) = take (length xs - length seg) xs"
    by (simp add: py_slice_to_neg)
  with suffix_take [OF suf] show ?thesis by simp
qed

lemma loop_step:
  "remove_stop_tokens_loop xs (seg # rest) =
     (if tail_equals xs seg then py_slice_to xs (- int (length seg))
      else remove_stop_tokens_loop xs rest)"
  by (simp add: tail_equals_def)

lemma loop_no_match:
  "\<forall>seg \<in> set segs. \<not> tail_equals xs seg \<Longrightarrow> remove_stop_tokens_loop xs segs = xs"
  by (induction segs) (simp_all add: loop_step del: remove_stop_tokens_loop.simps(2))

lemma loop_first_match:
  "\<exists>seg \<in> set segs. tail_equals xs seg \<Longrightarrow>
     \<exists>pre seg post. segs = pre @ seg # post \<and> (\<forall>s \<in> set pre. \<not> tail_equals xs s)
        \<and> tail_equals xs seg
        \<and> remove_stop_tokens_loop xs segs = py_slice_to xs (- int (length seg))"
proof (induction segs)
  case Nil
  then show ?case by simp
next
  case (Cons a segs)
  show ?case
  proof (cases "tail_equals xs a")
    case True
    then have "remove_stop_tokens_loop xs (a # segs) = py_slice_to xs (- int (length a))"
      by (simp add: loop_step del: remove_stop_tokens_loop.simps(2))
    with True show ?thesis by (intro exI [of _ "[]"] exI [of _ a] exI [of _ segs]) simp
  next
    case False
    with Cons.prems have "\<exists>seg \<in> set segs. tail_equals xs seg" by auto
    from Cons.IH [OF this] obtain pre seg post where
      h: "segs = pre @ seg # post" "\<forall>s \<in> set pre. \<not> tail_equals xs s" "tail_equals xs seg"
         "remove_stop_tokens_loop xs segs = py_slice_to xs (- int (length seg))"
      by blast
    from False have "remove_stop_tokens_loop xs (a # segs) = remove_stop_tokens_loop xs segs"
      by (simp add: loop_step del: remove_stop_tokens_loop.simps(2))
    with h False show ?thesis
      by (intro exI [of _ "a # pre"] exI [of _ seg] exI [of _ post]) simp
  qed
qed


lemma sorted_desc_split:
  assumes "sorted (map (\<lambda>x. - int (length x)) (pre @ seg # post))"
  shows "\<forall>s \<in> set post. length s \<le> length (seg :: int list)"
  using assms by (auto simp: sorted_append)

lemma trimmer_cases:
  fixes S :: "int list"
  shows "(\<forall>\<omega> \<in> set \<Omega>. \<not> tail_equals S \<omega>) \<and> remove_stop_tokens_from_end S \<Omega> = S
       \<or> (\<exists>\<omega> \<in> set \<Omega>. tail_equals S \<omega>
            \<and> (\<forall>\<omega>' \<in> set \<Omega>. tail_equals S \<omega>' \<longrightarrow> length \<omega>' \<le> length \<omega>)
            \<and> remove_stop_tokens_from_end S \<Omega> @ \<omega> = S)"
proof (cases "\<exists>\<omega> \<in> set \<Omega>. tail_equals S \<omega>")
  case False
  then show ?thesis
    by (simp add: remove_stop_tokens_from_end_def loop_no_match)
next
  case True
  let ?srt = "sort_key (\<lambda>x. - int (length x)) \<Omega>"
  from True have "\<exists>seg \<in> set ?srt. tail_equals S seg" by simp
  from loop_first_match [OF this] obtain pre seg post where
    h: "?srt = pre @ seg # post" "\<forall>s \<in> set pre. \<not> tail_equals S s" "tail_equals S seg"
       "remove_stop_tokens_loop S ?srt = py_slice_to S (- int (length seg))"
    by blast
  have "sorted (map (\<lambda>x. - int (length x)) ?srt)" by (rule sorted_sort_key)
  with h(1) have post: "\<forall>s \<in> set post. length s \<le> length seg"
    using sorted_desc_split by metis
  have mem: "set \<Omega> = set pre \<union> {seg} \<union> set post"
    using h(1) set_sort [of "\<lambda>x. - int (length x)" \<Omega>] by simp 
  have 1: "seg \<in> set \<Omega>" using mem by simp
  have 2: "\<forall>\<omega>' \<in> set \<Omega>. tail_equals S \<omega>' \<longrightarrow> length \<omega>' \<le> length seg"
    using mem h(2) post by auto
  have 3: "remove_stop_tokens_from_end S \<Omega> @ seg = S"
    using h(4) tail_equals_strip [OF h(3)] by (simp add: remove_stop_tokens_from_end_def)
  from 1 2 3 h(3) show ?thesis by blast
qed

text \<open>
  C1. When some stop sequence of \<open>\<Omega>\<close> is a suffix of \<open>S\<close>, the trimmer returns \<open>S\<close>
  without one longest such stop sequence at its end: the result followed by that stop
  sequence is \<open>S\<close>. When no stop sequence of \<open>\<Omega>\<close> is a suffix of \<open>S\<close>, the trimmer
  returns \<open>S\<close> unchanged.
\<close>

theorem remove_stop_tokens_longest_suffix:
  fixes S :: "int list"
  shows "((\<exists>\<omega> \<in> set \<Omega>. suffix \<omega> S) \<longrightarrow>
            (\<exists>\<omega> \<in> set \<Omega>. suffix \<omega> S
               \<and> (\<forall>\<omega>' \<in> set \<Omega>. suffix \<omega>' S \<longrightarrow> length \<omega>' \<le> length \<omega>)
               \<and> remove_stop_tokens_from_end S \<Omega> @ \<omega> = S))
       \<and> (\<not> (\<exists>\<omega> \<in> set \<Omega>. suffix \<omega> S) \<longrightarrow> remove_stop_tokens_from_end S \<Omega> = S)"
proof (intro conjI impI)
  assume nosuf: "\<not> (\<exists>\<omega> \<in> set \<Omega>. suffix \<omega> S)"
  then have "\<forall>\<omega> \<in> set \<Omega>. \<not> tail_equals S \<omega>" by (simp add: tail_equals_iff)
  with trimmer_cases [of \<Omega> S] show "remove_stop_tokens_from_end S \<Omega> = S" by blast
next
  assume ex: "\<exists>\<omega> \<in> set \<Omega>. suffix \<omega> S"
  from trimmer_cases [of \<Omega> S] show "\<exists>\<omega> \<in> set \<Omega>. suffix \<omega> S
               \<and> (\<forall>\<omega>' \<in> set \<Omega>. suffix \<omega>' S \<longrightarrow> length \<omega>' \<le> length \<omega>)
               \<and> remove_stop_tokens_from_end S \<Omega> @ \<omega> = S"
  proof
    assume a: "(\<forall>\<omega> \<in> set \<Omega>. \<not> tail_equals S \<omega>) \<and> remove_stop_tokens_from_end S \<Omega> = S"
    from ex obtain w where w: "w \<in> set \<Omega>" "suffix w S" by blast
    with a have "w = []" by (auto simp: tail_equals_iff)
    have all: "\<forall>\<omega>' \<in> set \<Omega>. suffix \<omega>' S \<longrightarrow> \<omega>' = []"
      using a by (auto simp: tail_equals_iff)
    show ?thesis
      using w \<open>w = []\<close> all a by (intro bexI [of _ "[]"]) auto
  next
    assume "\<exists>\<omega> \<in> set \<Omega>. tail_equals S \<omega>
            \<and> (\<forall>\<omega>' \<in> set \<Omega>. tail_equals S \<omega>' \<longrightarrow> length \<omega>' \<le> length \<omega>)
            \<and> remove_stop_tokens_from_end S \<Omega> @ \<omega> = S"
    then obtain w where w: "w \<in> set \<Omega>" "tail_equals S w"
      "\<forall>\<omega>' \<in> set \<Omega>. tail_equals S \<omega>' \<longrightarrow> length \<omega>' \<le> length w"
      "remove_stop_tokens_from_end S \<Omega> @ w = S" by blast
    have "\<forall>\<omega>' \<in> set \<Omega>. suffix \<omega>' S \<longrightarrow> length \<omega>' \<le> length w"
    proof (intro ballI impI)
      fix \<omega>' assume "\<omega>' \<in> set \<Omega>" "suffix \<omega>' S"
      show "length \<omega>' \<le> length w"
      proof (cases "\<omega>' = []")
        case True then show ?thesis by simp
      next
        case False
        with \<open>suffix \<omega>' S\<close> have "tail_equals S \<omega>'" by (simp add: tail_equals_iff)
        with w(3) \<open>\<omega>' \<in> set \<Omega>\<close> show ?thesis by blast
      qed
    qed
    with w show ?thesis by (intro bexI [of _ w]) (auto simp: tail_equals_iff)
  qed
qed

lemmas py_eval = remove_stop_tokens_from_end_def py_slice_from_def py_slice_to_def py_bound_def

text \<open>
  C1 at \<open>S = [1, 2, 3]\<close> with the stop sequences \<open>[3]\<close> and \<open>[2, 3]\<close>, where the longer one
  is removed, and at \<open>S = [1, 2]\<close> with the stop sequence \<open>[3]\<close>, where nothing matches.
\<close>

theorem remove_stop_tokens_longest_suffix_witness:
  "suffix [2, 3] [1, 2, 3 :: int]
     \<and> remove_stop_tokens_from_end [1, 2, 3] [[3], [2, 3]] = [1]
     \<and> \<not> suffix [3] [1, 2 :: int]
     \<and> remove_stop_tokens_from_end [1, 2] [[3]] = [1, 2]"
proof -
  have a: "suffix [2, 3] [1, 2, 3 :: int]" by (simp add: suffix_def)
  have b: "\<not> suffix [3] [1, 2 :: int]" by (auto simp: suffix_def Cons_eq_append_conv)
  from remove_stop_tokens_longest_suffix [of "[[3], [2, 3]]" "[1, 2, 3]"] a
  obtain w where w: "w \<in> set [[3], [2, 3 :: int]]"
      "\<forall>w' \<in> set [[3], [2, 3]]. suffix w' [1, 2, 3 :: int] \<longrightarrow> length w' \<le> length w"
      "remove_stop_tokens_from_end [1, 2, 3] [[3], [2, 3]] @ w = [1, 2, 3]"
    by auto
  from w(2) a have "2 \<le> length w" by auto
  with w(1) have "w = [2, 3]" by auto
  with w(3) have c: "remove_stop_tokens_from_end [1, 2, 3] [[3], [2, 3]] = [1]"
    by (simp add: append_eq_Cons_conv Cons_eq_append_conv)
  from remove_stop_tokens_longest_suffix [of "[[3]]" "[1, 2]"] b
  have d: "remove_stop_tokens_from_end [1, 2] [[3]] = [1, 2]" by simp
  from a b c d show ?thesis by blast
qed

text \<open>
  C2 as stated fails: \<open>[1, 2, 2]\<close> ends with the stop sequence \<open>[2]\<close>, the trimmer returns
  \<open>[1, 2]\<close>, which ends with \<open>[2]\<close> again, and a second run returns \<open>[1]\<close>.
\<close>

theorem trimmer_rerun_counterexample:
  "suffix [2] [1, 2, 2 :: int]
     \<and> remove_stop_tokens_from_end [1, 2, 2] [[2]] = [1, 2]
     \<and> remove_stop_tokens_from_end (remove_stop_tokens_from_end [1, 2, 2] [[2]]) [[2]] = [1]
     \<and> remove_stop_tokens_from_end (remove_stop_tokens_from_end [1, 2, 2] [[2]]) [[2]]
         \<noteq> remove_stop_tokens_from_end [1, 2, 2] [[2]]"
  by (simp add: py_eval suffix_def)

lemma trimmer_fixed_iff:
  fixes T :: "int list"
  shows "remove_stop_tokens_from_end T \<Omega> = T \<longleftrightarrow> \<not> (\<exists>\<omega> \<in> set \<Omega>. \<omega> \<noteq> [] \<and> suffix \<omega> T)"
proof
  assume fixed: "remove_stop_tokens_from_end T \<Omega> = T"
  show "\<not> (\<exists>\<omega> \<in> set \<Omega>. \<omega> \<noteq> [] \<and> suffix \<omega> T)"
  proof
    assume "\<exists>\<omega> \<in> set \<Omega>. \<omega> \<noteq> [] \<and> suffix \<omega> T"
    then obtain v where v: "v \<in> set \<Omega>" "v \<noteq> []" "suffix v T" by blast
    then have tv: "tail_equals T v" by (simp add: tail_equals_iff)
    with v(1) trimmer_cases [of \<Omega> T] obtain w where
      w: "w \<in> set \<Omega>" "\<forall>\<omega>' \<in> set \<Omega>. tail_equals T \<omega>' \<longrightarrow> length \<omega>' \<le> length w"
         "remove_stop_tokens_from_end T \<Omega> @ w = T"
      by blast
    from w(2) v(1) tv have "length v \<le> length w" by blast
    with v(2) have "w \<noteq> []" by auto
    with w(3) fixed show False by simp
  qed
next
  assume none: "\<not> (\<exists>\<omega> \<in> set \<Omega>. \<omega> \<noteq> [] \<and> suffix \<omega> T)"
  from trimmer_cases [of \<Omega> T] show "remove_stop_tokens_from_end T \<Omega> = T"
  proof
    assume "(\<forall>\<omega> \<in> set \<Omega>. \<not> tail_equals T \<omega>) \<and> remove_stop_tokens_from_end T \<Omega> = T"
    then show ?thesis by simp
  next
    assume "\<exists>\<omega> \<in> set \<Omega>. tail_equals T \<omega>
            \<and> (\<forall>\<omega>' \<in> set \<Omega>. tail_equals T \<omega>' \<longrightarrow> length \<omega>' \<le> length \<omega>)
            \<and> remove_stop_tokens_from_end T \<Omega> @ \<omega> = T"
    then obtain w where w: "w \<in> set \<Omega>" "tail_equals T w"
      "remove_stop_tokens_from_end T \<Omega> @ w = T" by blast
    from w(1,2) none have "w = []" by (auto simp: tail_equals_iff)
    with w(3) show ?thesis by simp
  qed
qed

text \<open>
  C2, amended. Running the trimmer again on its own result changes nothing exactly when
  that result does not end with a non-empty stop sequence of \<open>\<Omega>\<close>.
\<close>

theorem trimmer_rerun_noop_iff:
  fixes S :: "int list"
  shows "remove_stop_tokens_from_end (remove_stop_tokens_from_end S \<Omega>) \<Omega>
           = remove_stop_tokens_from_end S \<Omega>
         \<longleftrightarrow> \<not> (\<exists>\<omega> \<in> set \<Omega>. \<omega> \<noteq> [] \<and> suffix \<omega> (remove_stop_tokens_from_end S \<Omega>))"
  by (rule trimmer_fixed_iff)

text \<open>
  The amended C2 at \<open>S = [1, 2, 3]\<close>: the result \<open>[1]\<close> ends with no stop sequence, and the
  second run returns it unchanged.
\<close>

theorem trimmer_rerun_noop_iff_witness:
  "remove_stop_tokens_from_end [1, 2, 3] [[3], [2, 3]] = [1]
     \<and> remove_stop_tokens_from_end (remove_stop_tokens_from_end [1, 2, 3] [[3], [2, 3]]) [[3], [2, 3]]
         = remove_stop_tokens_from_end [1, 2, 3] [[3], [2, 3]]"
proof -
  have a: "remove_stop_tokens_from_end [1, 2, 3] [[3], [2, 3]] = [1]"
    by (simp add: py_eval)
  have "\<not> (\<exists>\<omega> \<in> set [[3], [2, 3 :: int]]. \<omega> \<noteq> [] \<and> suffix \<omega> [1])"
    by (auto simp: suffix_def Cons_eq_append_conv)
  with a trimmer_rerun_noop_iff [of "[1, 2, 3]" "[[3], [2, 3]]"] show ?thesis by simp
qed

section \<open>Properties of the tool-choice resolver\<close>

lemma tools_named_filter:
  "\<forall>t \<in> set ts. tool_function t \<noteq> None \<Longrightarrow>
     tools_named ts n = Inr (filter (\<lambda>t. map_option name (tool_function t) = Some n) ts)"
  by (induction ts) auto

text \<open>
  C3 as stated fails: with two declared tools of the name \<open>f\<close>, a bare reference to \<open>f\<close>
  returns both of them, not a singleton.
\<close>

theorem enforce_tool_choice_bare_name_counterexample:
  "enforce_tool_choice
     (ToolObj \<lparr> tool_type = ''function'',
                tool_function = Some \<lparr> name = ''f'', description = '''', parameters = None \<rparr> \<rparr>)
     (Some [ \<lparr> tool_type = ''function'',
               tool_function = Some \<lparr> name = ''f'', description = ''one'', parameters = None \<rparr> \<rparr>,
             \<lparr> tool_type = ''function'',
               tool_function = Some \<lparr> name = ''f'', description = ''two'', parameters = None \<rparr> \<rparr> ])
   = Inr (Some [ \<lparr> tool_type = ''function'',
                   tool_function = Some \<lparr> name = ''f'', description = ''one'', parameters = None \<rparr> \<rparr>,
                 \<lparr> tool_type = ''function'',
                   tool_function = Some \<lparr> name = ''f'', description = ''two'', parameters = None \<rparr> \<rparr> ])
   \<and> \<not> (\<exists>t. enforce_tool_choice
     (ToolObj \<lparr> tool_type = ''function'',
                tool_function = Some \<lparr> name = ''f'', description = '''', parameters = None \<rparr> \<rparr>)
     (Some [ \<lparr> tool_type = ''function'',
               tool_function = Some \<lparr> name = ''f'', description = ''one'', parameters = None \<rparr> \<rparr>,
             \<lparr> tool_type = ''function'',
               tool_function = Some \<lparr> name = ''f'', description = ''two'', parameters = None \<rparr> \<rparr> ])
     = Inr (Some [t]))"
  by (simp add: enforce_tool_choice_def)

text \<open>
  C3, amended. Let every declared tool carry a function record, and let \<open>T\<close> be a bare
  reference (empty description, no parameter schema) to the name \<open>name f\<close>. If some
  declared tool has that name, the resolver returns the declared tools of that name, in
  their declared order, and this list is the singleton \<open>[t]\<close> whenever \<open>t\<close> is the only
  declared tool of that name. If no declared tool has that name, the resolver fails with
  the assertion error of the source.
\<close>

theorem enforce_tool_choice_bare_name:
  assumes bare: "tool_function T = Some f" "description f = ''''" "parameters f = None"
    and declared: "\<forall>t \<in> set tools. tool_function t \<noteq> None"
  shows "((\<exists>t \<in> set tools. map_option name (tool_function t) = Some (name f)) \<longrightarrow>
            enforce_tool_choice (ToolObj T) (Some tools)
              = Inr (Some (filter (\<lambda>t. map_option name (tool_function t) = Some (name f)) tools)))
       \<and> (\<forall>t. filter (\<lambda>t. map_option name (tool_function t) = Some (name f)) tools = [t] \<longrightarrow>
            enforce_tool_choice (ToolObj T) (Some tools) = Inr (Some [t]))
       \<and> (\<not> (\<exists>t \<in> set tools. map_option name (tool_function t) = Some (name f)) \<longrightarrow>
            enforce_tool_choice (ToolObj T) (Some tools)
              = Inl (AssertionError (invalid_tool_choice_message (name f))))"
proof -
  let ?kept = "filter (\<lambda>t. map_option name (tool_function t) = Some (name f)) tools"
  have named: "tools_named tools (name f) = Inr ?kept"
    using declared by (rule tools_named_filter)
  have res: "enforce_tool_choice (ToolObj T) (Some tools)
               = (if length ?kept > 0 then Inr (Some ?kept)
                  else Inl (AssertionError (invalid_tool_choice_message (name f))))"
    using bare named by (simp add: enforce_tool_choice_def)
  have ne: "?kept \<noteq> [] \<longleftrightarrow> (\<exists>t \<in> set tools. map_option name (tool_function t) = Some (name f))"
    by (simp add: filter_empty_conv)
  show ?thesis
  proof (intro conjI impI allI)
    assume "\<exists>t \<in> set tools. map_option name (tool_function t) = Some (name f)"
    with ne res show "enforce_tool_choice (ToolObj T) (Some tools) = Inr (Some ?kept)" by simp
  next
    fix t assume "?kept = [t]"
    with res show "enforce_tool_choice (ToolObj T) (Some tools) = Inr (Some [t])" by simp
  next
    assume "\<not> (\<exists>t \<in> set tools. map_option name (tool_function t) = Some (name f))"
    with ne res show "enforce_tool_choice (ToolObj T) (Some tools)
              = Inl (AssertionError (invalid_tool_choice_message (name f)))" by simp
  qed
qed

text \<open>
  The amended C3 at the declared tools \<open>get_weather\<close> and \<open>get_time\<close>: a bare reference to
  \<open>get_weather\<close> gives the singleton of that tool, and a bare reference to \<open>get_date\<close> fails.
\<close>

theorem enforce_tool_choice_bare_name_witness:
  "enforce_tool_choice
     (ToolObj \<lparr> tool_type = ''function'',
                tool_function = Some \<lparr> name = ''get_weather'', description = '''', parameters = None \<rparr> \<rparr>)
     (Some [ \<lparr> tool_type = ''function'',
               tool_function = Some \<lparr> name = ''get_weather'', description = ''Weather'',
                                      parameters = Some (JObject []) \<rparr> \<rparr>,
             \<lparr> tool_type = ''function'',
               tool_function = Some \<lparr> name = ''get_time'', description = ''Time'', parameters = None \<rparr> \<rparr> ])
     = Inr (Some [ \<lparr> tool_type = ''function'',
                     tool_function = Some \<lparr> name = ''get_weather'', description = ''Weather'',
                                            parameters = Some (JObject []) \<rparr> \<rparr> ])
   \<and> enforce_tool_choice
     (ToolObj \<lparr> tool_type = ''function'',
                tool_function = Some \<lparr> name = ''get_date'', description = '''', parameters = None \<rparr> \<rparr>)
     (Some [ \<lparr> tool_type = ''function'',
               tool_function = Some \<lparr> name = ''get_weather'', description = ''Weather'',
                                      parameters = Some (JObject []) \<rparr> \<rparr>,
             \<lparr> tool_type = ''function'',
               tool_function = Some \<lparr> name = ''get_time'', description = ''Time'', parameters = None \<rparr> \<rparr> ])
     = Inl (AssertionError
         ''Invalid value for 'tool_choice': no function named get_date was specified in the 'tools' parameter'')"
proof -
  let ?w = "\<lparr> tool_type = ''function'',
               tool_function = Some \<lparr> name = ''get_weather'', description = ''Weather'',
                                      parameters = Some (JObject []) \<rparr> \<rparr>"
  let ?t = "\<lparr> tool_type = ''function'',
               tool_function = Some \<lparr> name = ''get_time'', description = ''Time'', parameters = None \<rparr> \<rparr>"
  let ?fw = "\<lparr> name = ''get_weather'', description = '''', parameters = None \<rparr>"
  let ?fd = "\<lparr> name = ''get_date'', description = '''', parameters = None \<rparr>"
  have 1: "enforce_tool_choice (ToolObj \<lparr> tool_type = ''function'', tool_function = Some ?fw \<rparr>)
             (Some [?w, ?t]) = Inr (Some [?w])"
    using enforce_tool_choice_bare_name
      [of "\<lparr> tool_type = ''function'', tool_function = Some ?fw \<rparr>" ?fw "[?w, ?t]"]
    by simp
  have 2: "enforce_tool_choice (ToolObj \<lparr> tool_type = ''function'', tool_function = Some ?fd \<rparr>)
             (Some [?w, ?t]) = Inl (AssertionError (invalid_tool_choice_message ''get_date''))"
    using enforce_tool_choice_bare_name
      [of "\<lparr> tool_type = ''function'', tool_function = Some ?fd \<rparr>" ?fd "[?w, ?t]"]
    by simp
  from 1 2 show ?thesis by (simp add: invalid_tool_choice_message_def)
qed

text \<open>
  C4. With the tool choice \<open>"none"\<close> the resolver returns the empty tool list, whatever
  the declared tools are (a list or \<open>None\<close>).
\<close>

theorem enforce_tool_choice_none:
  "enforce_tool_choice (Str ''none'') tools = Inr (Some [])"
  by (simp add: enforce_tool_choice_def)

text \<open>C4 at a declared list of one tool and at an absent list.\<close>

theorem enforce_tool_choice_none_witness:
  "enforce_tool_choice (Str ''none'') (Some [PYTHON_RUN_TOOL]) = Inr (Some [])
     \<and> enforce_tool_choice (Str ''none'') None = Inr (Some [])"
  using enforce_tool_choice_none [of "Some [PYTHON_RUN_TOOL]"] enforce_tool_choice_none [of None]
  by simp

text \<open>
  C10. With a string tool choice other than \<open>"none"\<close> (\<open>"auto"\<close> or any other string) the
  resolver returns the declared tools as they are, and raises nothing.
\<close>

theorem enforce_tool_choice_other_string:
  "s \<noteq> ''none'' \<Longrightarrow> enforce_tool_choice (Str s) tools = Inr tools"
  by (simp add: enforce_tool_choice_def)

text \<open>C10 at \<open>"auto"\<close> and at the unknown policy \<open>"required"\<close>.\<close>

theorem enforce_tool_choice_other_string_witness:
  "''auto'' \<noteq> ''none'' \<and> ''required'' \<noteq> ''none''
     \<and> enforce_tool_choice (Str ''auto'') (Some [PYTHON_RUN_TOOL]) = Inr (Some [PYTHON_RUN_TOOL])
     \<and> enforce_tool_choice (Str ''required'') (Some [PYTHON_RUN_TOOL]) = Inr (Some [PYTHON_RUN_TOOL])
     \<and> enforce_tool_choice (Str ''required'') None = Inr None"
proof -
  have a: "''auto'' \<noteq> ''none''" and r: "''required'' \<noteq> ''none''" by simp_all
  from enforce_tool_choice_other_string [OF a, of "Some [PYTHON_RUN_TOOL]"]
    enforce_tool_choice_other_string [OF r, of "Some [PYTHON_RUN_TOOL]"]
    enforce_tool_choice_other_string [OF r, of None] a r
  show ?thesis by blast
qed

section \<open>Properties of the stop-sequence matcher\<close>

lemma StopWordsCriteria_loop_iff:
  "StopWordsCriteria_loop inputs stops \<longleftrightarrow> (\<exists>stop \<in> set stops. tail_equals inputs stop)"
  by (induction stops) (auto simp: tail_equals_def)

text \<open>
  The decode loop hands the predicate the whole running sequence: the prompt followed by
  the tokens generated so far (this is why \<^verbatim>\<open>generate_message\<close> cuts the first
  \<^verbatim>\<open>inputs.shape[1]\<close> ids off what \<^verbatim>\<open>model.generate\<close> returns). The predicate has no way
  to know where the prompt ends.

  C5 as stated fails: with the prompt \<open>[1]\<close>, the generated token \<open>2\<close> and the stop sequence
  \<open>[1, 2]\<close>, the predicate signals a halt although no stop sequence is a suffix of the
  generated part \<open>[2]\<close>; the match overlaps the prompt.
\<close>

theorem stop_predicate_prompt_overlap_counterexample:
  "StopWordsCriteria_call [[1, 2]] [[1] @ [2]] = Inr True
     \<and> \<not> (\<exists>stop \<in> set [[1, 2]]. suffix stop [2 :: int])"
  by (simp add: StopWordsCriteria_call_def py_slice_from_def py_bound_def suffix_def
      Cons_eq_append_conv)

text \<open>
  C5, amended. At every step of the decode loop (at least one token has been generated), the
  predicate signals a halt exactly when some non-empty registered stop sequence is a suffix
  of the whole sequence it is given, prompt included, under equality of token ids.
\<close>

theorem stop_predicate_full_sequence:
  "generated \<noteq> [] \<Longrightarrow>
     StopWordsCriteria_call stops ((prompt @ generated) # rest)
       = Inr (\<exists>stop \<in> set stops. stop \<noteq> [] \<and> suffix stop (prompt @ generated))"
  by (auto simp: StopWordsCriteria_call_def StopWordsCriteria_loop_iff tail_equals_iff)

text \<open>
  The amended C5 at the prompt \<open>[7, 8]\<close> and the generated tokens \<open>[1, 2]\<close>: the stop
  sequence \<open>[8, 1, 2]\<close> halts, the stop sequences \<open>[2, 1]\<close> and \<open>[]\<close> do not.
\<close>

theorem stop_predicate_full_sequence_witness:
  "[1, 2] \<noteq> ([] :: int list)
     \<and> StopWordsCriteria_call [[8, 1, 2]] [[7, 8] @ [1, 2]] = Inr True
     \<and> StopWordsCriteria_call [[2, 1], []] [[7, 8] @ [1, 2]] = Inr False"
proof -
  have ne: "[1, 2] \<noteq> ([] :: int list)" by simp
  have a: "\<exists>stop \<in> set [[8, 1, 2]]. stop \<noteq> [] \<and> suffix stop ([7, 8] @ [1, 2 :: int])"
    by (simp add: suffix_def)
  have b: "\<not> (\<exists>stop \<in> set [[2, 1], []]. stop \<noteq> [] \<and> suffix stop ([7, 8] @ [1, 2 :: int]))"
    by (auto simp: suffix_def Cons_eq_append_conv)
  from stop_predicate_full_sequence [OF ne, of "[[8, 1, 2]]" "[7, 8]" "[]"] a
  have 1: "StopWordsCriteria_call [[8, 1, 2]] [[7, 8] @ [1, 2]] = Inr True" by simp
  from stop_predicate_full_sequence [OF ne, of "[[2, 1], []]" "[7, 8]" "[]"] b
  have 2: "StopWordsCriteria_call [[2, 1], []] [[7, 8] @ [1, 2]] = Inr False" by simp
  from ne 1 2 show ?thesis by blast
qed

subsection \<open>Building the stop sequences\<close>

lemma py_slice_from_one: "py_slice_from xs 1 = tl xs"
  by (cases xs) (simp_all add: py_slice_from_def py_bound_def)

lemma stop_words_ids_loop_map:
  "stop_words_ids_loop encode stops acc =
     acc @ map (\<lambda>stop. if length (encode stop) > 1 \<and> encode stop ! 0 = 29871
                        then tl (encode stop) else encode stop) stops"
  by (induction stops arbitrary: acc) (simp_all add: Let_def py_slice_from_one)

text \<open>
  C6. The stop sequences are built marker by marker, in order: a marker whose
  tokenization is longer than one id and starts with the id 29871 is used without that
  first id, and every other marker is used as tokenized.
\<close>

theorem stop_words_sentinel_dropped:
  "length (generate_message_stop_words_ids encode kwargs_stops template_stops)
       = length (kwargs_stops @ template_stops)
     \<and> (\<forall>i < length (kwargs_stops @ template_stops).
          (length (encode ((kwargs_stops @ template_stops) ! i)) > 1
             \<and> encode ((kwargs_stops @ template_stops) ! i) ! 0 = 29871 \<longrightarrow>
           generate_message_stop_words_ids encode kwargs_stops template_stops ! i
             = tl (encode ((kwargs_stops @ template_stops) ! i)))
        \<and> (\<not> (length (encode ((kwargs_stops @ template_stops) ! i)) > 1
             \<and> encode ((kwargs_stops @ template_stops) ! i) ! 0 = 29871) \<longrightarrow>
           generate_message_stop_words_ids encode kwargs_stops template_stops ! i
             = encode ((kwargs_stops @ template_stops) ! i)))"
proof -
  let ?stops = "kwargs_stops @ template_stops"
  let ?f = "\<lambda>stop. if length (encode stop) > 1 \<and> encode stop ! 0 = 29871
                     then tl (encode stop) else encode stop"
  have eq: "generate_message_stop_words_ids encode kwargs_stops template_stops = map ?f ?stops"
    by (simp add: generate_message_stop_words_ids_def stop_words_ids_loop_map)
  have len: "length (map ?f ?stops) = length ?stops" by simp
  have nth: "\<forall>i < length ?stops. map ?f ?stops ! i = ?f (?stops ! i)"
    using nth_map [of _ ?stops ?f] by blast
  show ?thesis
    unfolding eq using len nth by auto
qed

text \<open>
  C6 with a tokenizer that puts 29871 in front of \<open><|stop|>\<close> and encodes a blank as the
  single id 29871: the first is used without the 29871, the second and the third verbatim.
\<close>

theorem stop_words_sentinel_dropped_witness:
  "generate_message_stop_words_ids
     (\<lambda>s. if s = ''<|stop|>'' then [29871, 32002] else if s = '' '' then [29871] else [32001])
     ['' ''] [''<|from|>'', ''<|stop|>'']
   = [[29871], [32001], [32002]]"
proof -
  let ?enc = "\<lambda>s. if s = ''<|stop|>'' then [29871, 32002 :: int]
                   else if s = '' '' then [29871] else [32001]"
  let ?r = "generate_message_stop_words_ids ?enc ['' ''] [''<|from|>'', ''<|stop|>'']"
  from stop_words_sentinel_dropped [of ?enc "['' '']" "[''<|from|>'', ''<|stop|>'']"]
  have len: "length ?r = 3"
    and all: "\<forall>i < 3.
          (length (?enc (['' '', ''<|from|>'', ''<|stop|>''] ! i)) > 1
             \<and> ?enc (['' '', ''<|from|>'', ''<|stop|>''] ! i) ! 0 = 29871 \<longrightarrow>
           ?r ! i = tl (?enc (['' '', ''<|from|>'', ''<|stop|>''] ! i)))
        \<and> (\<not> (length (?enc (['' '', ''<|from|>'', ''<|stop|>''] ! i)) > 1
             \<and> ?enc (['' '', ''<|from|>'', ''<|stop|>''] ! i) ! 0 = 29871) \<longrightarrow>
           ?r ! i = ?enc (['' '', ''<|from|>'', ''<|stop|>''] ! i))"
    by simp_all
  from all have 0: "?r ! 0 = [29871]" by simp
  from all have "(1::nat) < 3 \<longrightarrow> ?r ! 1 = [32001]" by (auto simp del: One_nat_def)
  then have 1: "?r ! 1 = [32001]" by simp
  from all have "(2::nat) < 3 \<longrightarrow> ?r ! 2 = [32002]" by auto
  then have 2: "?r ! 2 = [32002]" by simp
  from len obtain a b c where abc: "?r = [a, b, c]"
    by (auto simp: length_Suc_conv numeral_3_eq_3)
  with 0 1 2 show ?thesis by simp
qed

section \<open>Properties of the prompt assembler\<close>

lemma example_rendered:
  "rendered_prompt example_collaborators [''Hi''] None None = ''##''"
  by (simp add: rendered_prompt_def example_collaborators_def)

text \<open>
  C7 as stated fails for the policy \<open>"none"\<close>: the assembler appends the template's first
  predefined function name and the function-parameter stop marker to the rendered prompt.
\<close>

theorem prepare_messages_none_counterexample:
  "rendered_prompt example_collaborators [''Hi''] None None = ''##''
     \<and> prepare_messages_final_prompt example_collaborators [''Hi''] None None (Some (Str ''none''))
         = Inr ''##all<|content|>''
     \<and> prepare_messages_final_prompt example_collaborators [''Hi''] None None (Some (Str ''none''))
         \<noteq> Inr (rendered_prompt example_collaborators [''Hi''] None None)"
  by (simp add: prepare_messages_final_prompt_def example_rendered)
    (simp add: example_collaborators_def)

text \<open>
  C7, amended. For an explicit tool choice \<open>T\<close> the prompt is the rendered prompt followed
  by \<open>T\<close>'s function name and the template's function-parameter stop marker, so it ends with
  these two. For the policy \<open>"none"\<close> the prompt is the rendered prompt followed by the
  template's first predefined function name and the same marker. For the policy \<open>"auto"\<close>
  and for an absent policy the prompt is the rendered prompt, with nothing appended.
\<close>

theorem prepare_messages_forced_suffix:
  "(tool_function T = Some f \<longrightarrow>
      prepare_messages_final_prompt c messages functions tools (Some (ToolObj T))
        = Inr (rendered_prompt c messages functions tools @ name f
                 @ get_stop_token_for_function_parameter c ''function'')
      \<and> (\<exists>text. prepare_messages_final_prompt c messages functions tools (Some (ToolObj T))
                   = Inr text
                 \<and> suffix (name f @ get_stop_token_for_function_parameter c ''function'') text))
   \<and> (get_predefined_function_names c = first # others \<longrightarrow>
      prepare_messages_final_prompt c messages functions tools (Some (Str ''none''))
        = Inr (rendered_prompt c messages functions tools @ first
                 @ get_stop_token_for_function_parameter c ''function''))
   \<and> prepare_messages_final_prompt c messages functions tools (Some (Str ''auto''))
        = Inr (rendered_prompt c messages functions tools)
   \<and> prepare_messages_final_prompt c messages functions tools None
        = Inr (rendered_prompt c messages functions tools)"
  by (auto simp: prepare_messages_final_prompt_def Let_def suffix_def)

text \<open>
  The amended C7 with the example template: forcing the tool \<open>get_weather\<close>, the policy
  \<open>"none"\<close>, the policy \<open>"auto"\<close> and no policy.
\<close>

theorem prepare_messages_forced_suffix_witness:
  "prepare_messages_final_prompt example_collaborators [''Hi''] None None
       (Some (ToolObj \<lparr> tool_type = ''function'',
          tool_function = Some \<lparr> name = ''get_weather'', description = '''', parameters = None \<rparr> \<rparr>))
       = Inr ''##get_weather<|content|>''
     \<and> prepare_messages_final_prompt example_collaborators [''Hi''] None None (Some (Str ''none''))
       = Inr ''##all<|content|>''
     \<and> prepare_messages_final_prompt example_collaborators [''Hi''] None None (Some (Str ''auto''))
       = Inr ''##''
     \<and> prepare_messages_final_prompt example_collaborators [''Hi''] None None None = Inr ''##''"
proof -
  let ?f = "\<lparr> name = ''get_weather'', description = '''', parameters = None \<rparr>"
  let ?T = "\<lparr> tool_type = ''function'', tool_function = Some ?f \<rparr>"
  have names: "get_predefined_function_names example_collaborators = ''all'' # []"
    and marker: "get_stop_token_for_function_parameter example_collaborators ''function''
                   = ''<|content|>''"
    by (simp_all add: example_collaborators_def)
  have fn: "tool_function ?T = Some ?f" by simp
  from prepare_messages_forced_suffix
    [of ?T ?f example_collaborators "[''Hi'']" None None "''all''" "[]"] fn names
  show ?thesis by (simp add: example_rendered marker)
qed

section \<open>Properties of the code-interpreter substituter\<close>

lemma ci_loop_enumerate:
  "enforce_code_interpreter_loop st r (enumerate n xs) =
     (if length (takeWhile (\<lambda>t. tool_type t \<noteq> ''code_interpreter'') xs) < length xs
      then st (r := (st r)
             [n + length (takeWhile (\<lambda>t. tool_type t \<noteq> ''code_interpreter'') xs)
                := PYTHON_RUN_TOOL])
      else st)"
  by (induction xs arbitrary: n) simp_all

lemma first_ci_index:
  assumes "\<exists>t \<in> set xs. tool_type t = ''code_interpreter''"
  defines "k \<equiv> length (takeWhile (\<lambda>t. tool_type t \<noteq> ''code_interpreter'') xs)"
  shows "k < length xs" and "tool_type (xs ! k) = ''code_interpreter''"
    and "\<forall>j < k. tool_type (xs ! j) \<noteq> ''code_interpreter''"
proof -
  let ?P = "\<lambda>t. tool_type t \<noteq> ''code_interpreter''"
  from assms(1) have ne: "takeWhile ?P xs \<noteq> xs" by auto
  have "length (takeWhile ?P xs) \<noteq> length xs"
  proof
    assume "length (takeWhile ?P xs) = length xs"
    with takeWhile_eq_take [of ?P xs] have "takeWhile ?P xs = xs" by simp
    with ne show False by simp
  qed
  with length_takeWhile_le [of ?P xs] show lt: "k < length xs"
    unfolding k_def by simp
  from nth_length_takeWhile [of "\<lambda>t. tool_type t \<noteq> ''code_interpreter''" xs] lt
  show "tool_type (xs ! k) = ''code_interpreter''"
    unfolding k_def by simp
  show "\<forall>j < k. tool_type (xs ! j) \<noteq> ''code_interpreter''"
  proof (intro allI impI)
    fix j assume "j < k"
    then have "j < length (takeWhile (\<lambda>t. tool_type t \<noteq> ''code_interpreter'') xs)"
      by (simp add: k_def)
    from nth_mem [OF this] takeWhile_nth [OF this] set_takeWhileD
    show "tool_type (xs ! j) \<noteq> ''code_interpreter''" by metis
  qed
qed

lemma no_ci_takeWhile:
  "\<forall>t \<in> set xs. tool_type t \<noteq> ''code_interpreter'' \<Longrightarrow>
     \<not> length (takeWhile (\<lambda>t. tool_type t \<noteq> ''code_interpreter'') xs) < length xs"
  by (simp add: takeWhile_eq_all_conv [THEN iffD2])

lemma enforce_code_interpreter_some:
  "enforce_code_interpreter st (Some r) =
     (if \<exists>t \<in> set (st r). tool_type t = ''code_interpreter''
      then (st (r := (st r)
                 [length (takeWhile (\<lambda>t. tool_type t \<noteq> ''code_interpreter'') (st r))
                    := PYTHON_RUN_TOOL]), Some r)
      else (st, Some r))"
proof (cases "\<exists>t \<in> set (st r). tool_type t = ''code_interpreter''")
  case True
  from first_ci_index(1) [OF True] show ?thesis
    using True by (simp add: enforce_code_interpreter_def ci_loop_enumerate)
next
  case False
  then have "\<forall>t \<in> set (st r). tool_type t \<noteq> ''code_interpreter''" by blast
  from no_ci_takeWhile [OF this] False show ?thesis
    by (simp add: enforce_code_interpreter_def ci_loop_enumerate)
qed

lemma description_mentions:
  "sublist ''stateful Jupyter notebook'' PYTHON_RUN_TOOL_description"
  "sublist ''time out after 60.0 seconds'' PYTHON_RUN_TOOL_description"
  "sublist ''/mnt/data'' PYTHON_RUN_TOOL_description"
  "sublist ''persist user files'' PYTHON_RUN_TOOL_description"
  by code_simp+

lemma description_silent:
  "\<not> sublist ''nternet'' PYTHON_RUN_TOOL_description"
  "\<not> sublist ''etwork'' PYTHON_RUN_TOOL_description"
  "\<not> sublist ''xternal'' PYTHON_RUN_TOOL_description"
  by code_simp+

text \<open>
  C8 as stated fails in one point: the description of the built-in tool says nothing about
  network access. The list \<open>[{"type": "code_interpreter"}]\<close> becomes the list of the
  built-in tool, whose description is the three sentences below and names neither the
  Internet, nor a network, nor anything external.
\<close>

theorem python_tool_description_counterexample:
  "fst (enforce_code_interpreter
          (\<lambda>r. [\<lparr> tool_type = ''code_interpreter'', tool_function = None \<rparr>]) (Some 0)) 0
       = [PYTHON_RUN_TOOL]
     \<and> map_option description (tool_function PYTHON_RUN_TOOL) = Some
         ''When you send a message containing Python code to python, it will be executed in a stateful Jupyter notebook environment. python will respond with the output of the execution or time out after 60.0 seconds. The drive at '/mnt/data' can be used to save and persist user files.''
     \<and> \<not> sublist ''nternet'' PYTHON_RUN_TOOL_description
     \<and> \<not> sublist ''etwork'' PYTHON_RUN_TOOL_description
     \<and> \<not> sublist ''xternal'' PYTHON_RUN_TOOL_description"
proof -
  have "fst (enforce_code_interpreter
          (\<lambda>r. [\<lparr> tool_type = ''code_interpreter'', tool_function = None \<rparr>]) (Some 0)) 0
       = [PYTHON_RUN_TOOL]"
    by (simp add: enforce_code_interpreter_def)
  moreover have "map_option description (tool_function PYTHON_RUN_TOOL) = Some
         ''When you send a message containing Python code to python, it will be executed in a stateful Jupyter notebook environment. python will respond with the output of the execution or time out after 60.0 seconds. The drive at '/mnt/data' can be used to save and persist user files.''"
    by (simp add: PYTHON_RUN_TOOL_def PYTHON_RUN_TOOL_description_def)
  ultimately show ?thesis using description_silent by blast
qed

text \<open>
  C8, amended. A \<open>None\<close> list and a list without a code-interpreter entry are returned
  as they are. In a list with a code-interpreter entry, the first such entry, and no
  other entry, is replaced by the built-in tool. The built-in tool is a function tool named
  \<open>python\<close>; its parameter schema is an object schema with no properties; its description
  says that the code runs in a stateful Jupyter notebook, that the execution times out
  after 60.0 seconds, and that the drive at \<open>/mnt/data\<close> persists user files. (It says
  nothing about network access.) The function raises nothing.
\<close>

theorem enforce_code_interpreter_replaces_first:
  "enforce_code_interpreter st None = (st, None)
   \<and> ((\<forall>t \<in> set (st r). tool_type t \<noteq> ''code_interpreter'') \<longrightarrow>
        enforce_code_interpreter st (Some r) = (st, Some r))
   \<and> ((\<exists>t \<in> set (st r). tool_type t = ''code_interpreter'') \<longrightarrow>
        (\<exists>i < length (st r).
            tool_type (st r ! i) = ''code_interpreter''
          \<and> (\<forall>j < i. tool_type (st r ! j) \<noteq> ''code_interpreter'')
          \<and> enforce_code_interpreter st (Some r)
              = (st (r := (st r) [i := PYTHON_RUN_TOOL]), Some r)
          \<and> length (fst (enforce_code_interpreter st (Some r)) r) = length (st r)
          \<and> fst (enforce_code_interpreter st (Some r)) r ! i = PYTHON_RUN_TOOL
          \<and> (\<forall>j < length (st r). j \<noteq> i \<longrightarrow>
                fst (enforce_code_interpreter st (Some r)) r ! j = st r ! j)))
   \<and> tool_type PYTHON_RUN_TOOL = ''function''
   \<and> map_option name (tool_function PYTHON_RUN_TOOL) = Some ''python''
   \<and> map_option parameters (tool_function PYTHON_RUN_TOOL)
        = Some (Some (JObject [(''type'', JString ''object''), (''properties'', JObject [])]))
   \<and> map_option description (tool_function PYTHON_RUN_TOOL) = Some PYTHON_RUN_TOOL_description
   \<and> sublist ''stateful Jupyter notebook'' PYTHON_RUN_TOOL_description
   \<and> sublist ''time out after 60.0 seconds'' PYTHON_RUN_TOOL_description
   \<and> sublist ''/mnt/data'' PYTHON_RUN_TOOL_description
   \<and> sublist ''persist user files'' PYTHON_RUN_TOOL_description"
proof -
  have none: "enforce_code_interpreter st None = (st, None)"
    by (simp add: enforce_code_interpreter_def)
  have absent: "(\<forall>t \<in> set (st r). tool_type t \<noteq> ''code_interpreter'') \<longrightarrow>
        enforce_code_interpreter st (Some r) = (st, Some r)"
    by (simp add: enforce_code_interpreter_some)
  have present: "(\<exists>t \<in> set (st r). tool_type t = ''code_interpreter'') \<longrightarrow>
        (\<exists>i < length (st r).
            tool_type (st r ! i) = ''code_interpreter''
          \<and> (\<forall>j < i. tool_type (st r ! j) \<noteq> ''code_interpreter'')
          \<and> enforce_code_interpreter st (Some r)
              = (st (r := (st r) [i := PYTHON_RUN_TOOL]), Some r)
          \<and> length (fst (enforce_code_interpreter st (Some r)) r) = length (st r)
          \<and> fst (enforce_code_interpreter st (Some r)) r ! i = PYTHON_RUN_TOOL
          \<and> (\<forall>j < length (st r). j \<noteq> i \<longrightarrow>
                fst (enforce_code_interpreter st (Some r)) r ! j = st r ! j))"
  proof
    assume ex: "\<exists>t \<in> set (st r). tool_type t = ''code_interpreter''"
    let ?k = "length (takeWhile (\<lambda>t. tool_type t \<noteq> ''code_interpreter'') (st r))"
    note k = first_ci_index [OF ex]
    have res: "enforce_code_interpreter st (Some r)
                 = (st (r := (st r) [?k := PYTHON_RUN_TOOL]), Some r)"
      using ex by (simp add: enforce_code_interpreter_some)
    show "\<exists>i < length (st r).
            tool_type (st r ! i) = ''code_interpreter''
          \<and> (\<forall>j < i. tool_type (st r ! j) \<noteq> ''code_interpreter'')
          \<and> enforce_code_interpreter st (Some r)
              = (st (r := (st r) [i := PYTHON_RUN_TOOL]), Some r)
          \<and> length (fst (enforce_code_interpreter st (Some r)) r) = length (st r)
          \<and> fst (enforce_code_interpreter st (Some r)) r ! i = PYTHON_RUN_TOOL
          \<and> (\<forall>j < length (st r). j \<noteq> i \<longrightarrow>
                fst (enforce_code_interpreter st (Some r)) r ! j = st r ! j)"
    proof (intro exI [of _ ?k] conjI)
      show "?k < length (st r)" by (rule k(1))
      show "tool_type (st r ! ?k) = ''code_interpreter''" by (rule k(2))
      show "\<forall>j < ?k. tool_type (st r ! j) \<noteq> ''code_interpreter''" by (rule k(3))
      show "enforce_code_interpreter st (Some r)
              = (st (r := (st r) [?k := PYTHON_RUN_TOOL]), Some r)" by (rule res)
      show "length (fst (enforce_code_interpreter st (Some r)) r) = length (st r)"
        by (simp add: res)
      show "fst (enforce_code_interpreter st (Some r)) r ! ?k = PYTHON_RUN_TOOL"
        using k(1) by (simp add: res)
      show "\<forall>j < length (st r). j \<noteq> ?k \<longrightarrow>
                fst (enforce_code_interpreter st (Some r)) r ! j = st r ! j"
        by (simp add: res)
    qed
  qed
  have fields: "tool_type PYTHON_RUN_TOOL = ''function''"
    "map_option name (tool_function PYTHON_RUN_TOOL) = Some ''python''"
    "map_option parameters (tool_function PYTHON_RUN_TOOL)
        = Some (Some (JObject [(''type'', JString ''object''), (''properties'', JObject [])]))"
    "map_option description (tool_function PYTHON_RUN_TOOL) = Some PYTHON_RUN_TOOL_description"
    by (simp_all add: PYTHON_RUN_TOOL_def)
  from none absent present fields description_mentions show ?thesis by blast
qed

text \<open>
  The amended C8 on a store whose list 0 is a weather tool followed by two code-interpreter
  entries: only the first of the two is replaced.
\<close>

theorem enforce_code_interpreter_replaces_first_witness:
  "enforce_code_interpreter
     (\<lambda>r. [ \<lparr> tool_type = ''function'',
               tool_function = Some \<lparr> name = ''get_weather'', description = ''Weather'',
                                      parameters = None \<rparr> \<rparr>,
            \<lparr> tool_type = ''code_interpreter'', tool_function = None \<rparr>,
            \<lparr> tool_type = ''code_interpreter'', tool_function = None \<rparr> ]) (Some 0)
   = ((\<lambda>r. [ \<lparr> tool_type = ''function'',
               tool_function = Some \<lparr> name = ''get_weather'', description = ''Weather'',
                                      parameters = None \<rparr> \<rparr>,
            \<lparr> tool_type = ''code_interpreter'', tool_function = None \<rparr>,
            \<lparr> tool_type = ''code_interpreter'', tool_function = None \<rparr> ])
        (0 := [ \<lparr> tool_type = ''function'',
                  tool_function = Some \<lparr> name = ''get_weather'', description = ''Weather'',
                                      parameters = None \<rparr> \<rparr>,
                PYTHON_RUN_TOOL,
                \<lparr> tool_type = ''code_interpreter'', tool_function = None \<rparr> ]), Some 0)"
proof -
  let ?w = "\<lparr> tool_type = ''function'',
               tool_function = Some \<lparr> name = ''get_weather'', description = ''Weather'',
                                      parameters = None \<rparr> \<rparr>"
  let ?ci = "\<lparr> tool_type = ''code_interpreter'', tool_function = None \<rparr>"
  let ?st = "\<lambda>r :: nat. [?w, ?ci, ?ci]"
  have ex: "\<exists>t \<in> set (?st 0). tool_type t = ''code_interpreter''" by simp
  with enforce_code_interpreter_replaces_first [of ?st 0]
  obtain i where i: "i < length (?st 0)" "tool_type (?st 0 ! i) = ''code_interpreter''"
      "\<forall>j < i. tool_type (?st 0 ! j) \<noteq> ''code_interpreter''"
      "enforce_code_interpreter ?st (Some 0) = (?st (0 := (?st 0) [i := PYTHON_RUN_TOOL]), Some 0)"
    by blast
  from i(1) have "i = 0 \<or> i = 1 \<or> i = 2" by auto
  moreover from i(2) have "i \<noteq> 0" by (rule contrapos_pn) simp
  moreover have "i \<noteq> 2"
  proof
    assume "i = 2"
    with i(3) have "Suc 0 < 2 \<longrightarrow> tool_type (?st 0 ! Suc 0) \<noteq> ''code_interpreter''"
      by blast
    then show False by simp
  qed
  ultimately have "i = 1" by blast
  with i(4) show ?thesis by simp
qed

text \<open>
  C9 as stated fails: the caller's list \<open>[{"type": "code_interpreter"}]\<close> at reference 0 is
  a different list after the call.
\<close>

theorem enforce_code_interpreter_mutates_counterexample:
  "fst (enforce_code_interpreter
          (\<lambda>r. [\<lparr> tool_type = ''code_interpreter'', tool_function = None \<rparr>]) (Some 0)) 0
     \<noteq> [\<lparr> tool_type = ''code_interpreter'', tool_function = None \<rparr>]"
  by (simp add: enforce_code_interpreter_def PYTHON_RUN_TOOL_def)

text \<open>
  C9, amended. The call changes the caller's list in place exactly when the list has a
  code-interpreter entry: the caller's list after the call equals the list before the call
  if and only if no entry has the type \<open>code_interpreter\<close>. The returned list is the
  caller's list object itself, and no other list of the store is changed.
\<close>

theorem enforce_code_interpreter_frame:
  "(fst (enforce_code_interpreter st (Some r)) r = st r
      \<longleftrightarrow> (\<forall>t \<in> set (st r). tool_type t \<noteq> ''code_interpreter''))
   \<and> snd (enforce_code_interpreter st (Some r)) = Some r
   \<and> (\<forall>r'. r' \<noteq> r \<longrightarrow> fst (enforce_code_interpreter st (Some r)) r' = st r')
   \<and> enforce_code_interpreter st None = (st, None)"
proof -
  let ?k = "length (takeWhile (\<lambda>t. tool_type t \<noteq> ''code_interpreter'') (st r))"
  have changed: "fst (enforce_code_interpreter st (Some r)) r \<noteq> st r"
    if ex: "\<exists>t \<in> set (st r). tool_type t = ''code_interpreter''"
  proof
    assume same: "fst (enforce_code_interpreter st (Some r)) r = st r"
    note k = first_ci_index [OF ex]
    from ex have "fst (enforce_code_interpreter st (Some r)) r = (st r) [?k := PYTHON_RUN_TOOL]"
      by (simp add: enforce_code_interpreter_some)
    with same have "(st r) [?k := PYTHON_RUN_TOOL] ! ?k = st r ! ?k" by simp
    with k(1) have "st r ! ?k = PYTHON_RUN_TOOL" by simp
    with k(2) show False by (simp add: PYTHON_RUN_TOOL_def)
  qed
  have same: "fst (enforce_code_interpreter st (Some r)) r = st r"
    if "\<forall>t \<in> set (st r). tool_type t \<noteq> ''code_interpreter''"
    using that by (simp add: enforce_code_interpreter_some)
  have ref: "snd (enforce_code_interpreter st (Some r)) = Some r"
    by (simp add: enforce_code_interpreter_some)
  have others: "\<forall>r'. r' \<noteq> r \<longrightarrow> fst (enforce_code_interpreter st (Some r)) r' = st r'"
    by (simp add: enforce_code_interpreter_some)
  have none: "enforce_code_interpreter st None = (st, None)"
    by (simp add: enforce_code_interpreter_def)
  from changed same ref others none show ?thesis by blast
qed

text \<open>
  The amended C9 on a store with the list \<open>[{"type": "code_interpreter"}]\<close> at reference 0
  and the list of the built-in tool at every other reference: a call on reference 1 changes
  nothing, a call on reference 0 changes the list at 0 and leaves the list at 1 alone.
\<close>

theorem enforce_code_interpreter_frame_witness:
  "fst (enforce_code_interpreter
          (\<lambda>r. if r = 0 then [\<lparr> tool_type = ''code_interpreter'', tool_function = None \<rparr>]
                else [PYTHON_RUN_TOOL]) (Some 1)) 1 = [PYTHON_RUN_TOOL]
   \<and> fst (enforce_code_interpreter
          (\<lambda>r. if r = 0 then [\<lparr> tool_type = ''code_interpreter'', tool_function = None \<rparr>]
                else [PYTHON_RUN_TOOL]) (Some 0)) 0
       \<noteq> [\<lparr> tool_type = ''code_interpreter'', tool_function = None \<rparr>]
   \<and> fst (enforce_code_interpreter
          (\<lambda>r. if r = 0 then [\<lparr> tool_type = ''code_interpreter'', tool_function = None \<rparr>]
                else [PYTHON_RUN_TOOL]) (Some 0)) 1 = [PYTHON_RUN_TOOL]
   \<and> snd (enforce_code_interpreter
          (\<lambda>r. if r = 0 then [\<lparr> tool_type = ''code_interpreter'', tool_function = None \<rparr>]
                else [PYTHON_RUN_TOOL]) (Some 0)) = Some 0"
proof -
  let ?ci = "\<lparr> tool_type = ''code_interpreter'', tool_function = None \<rparr>"
  let ?st = "\<lambda>r :: nat. if r = 0 then [?ci] else [PYTHON_RUN_TOOL]"
  have py: "tool_type PYTHON_RUN_TOOL \<noteq> ''code_interpreter''"
    by (simp add: PYTHON_RUN_TOOL_def)
  from enforce_code_interpreter_frame [of ?st 1] py
  have 1: "fst (enforce_code_interpreter ?st (Some 1)) 1 = [PYTHON_RUN_TOOL]" by simp
  from enforce_code_interpreter_frame [of ?st 0]
  have 2: "fst (enforce_code_interpreter ?st (Some 0)) 0 \<noteq> [?ci]"
    and 3: "fst (enforce_code_interpreter ?st (Some 0)) 1 = [PYTHON_RUN_TOOL]"
    and 4: "snd (enforce_code_interpreter ?st (Some 0)) = Some 0"
    by simp_all
  from 1 2 3 4 show ?thesis by blast
qed

end
